theory Spec2Isabelle
  imports Complex_Main "HOL-Library.Word" "HOL-Library.AList"
begin

unbundle bit_operations_syntax

section \<open>Numbers and their text\<close>

text \<open>
  The engine computes on JavaScript numbers. They are modelled as the reals: every
  arithmetic step is exact, so a tolerance such as \<open>1e-6\<close> is met whenever the
  algebra closes, and NaN and the infinities do not exist. Counters that the source
  only ever increments by one and prints (\<open>turn_no\<close>) are integers. Strings are lists
  of 8-bit characters, which is what \<open>charCodeAt\<close> returns on ASCII text.
\<close>

definition digit_char :: "nat \<Rightarrow> char" where
  "digit_char n = ''0123456789'' ! (n mod 10)"

fun string_of_nat :: "nat \<Rightarrow> string" where
  "string_of_nat n =
     (if n < 10 then [digit_char n] else string_of_nat (n div 10) @ [digit_char (n mod 10)])"

definition string_of_int :: "int \<Rightarrow> string" where
  "string_of_int i = (if i < 0 then CHR ''-'' # string_of_nat (nat (- i)) else string_of_nat (nat i))"

text \<open>\<open>Math.round\<close>: the nearest integer, a tie going up.\<close>

definition js_round :: "real \<Rightarrow> int" where
  "js_round x = \<lfloor>x + 1 / 2\<rfloor>"

text \<open>
  \<open>Number.prototype.toFixed(f)\<close> below \<open>1e21\<close>: the sign, then the integer \<open>n\<close>
  nearest to \<open>x * 10^f\<close> (the larger one on a tie), padded with zeros to \<open>f + 1\<close>
  digits, with the point before the last \<open>f\<close> digits.
\<close>

definition toFixed :: "nat \<Rightarrow> real \<Rightarrow> string" where
  "toFixed f x =
     (let s = (if x < 0 then ''-'' else '''');
          y = (if x < 0 then - x else x);
          n = nat \<lfloor>y * 10 ^ f + 1 / 2\<rfloor>;
          m = string_of_nat n
      in if f = 0 then s @ m
         else (let m' = replicate (f + 1 - length m) CHR ''0'' @ m;
                   k = length m' - f
               in s @ take k m' @ ''.'' @ drop k m'))"

section \<open>The financial engine (finance.ts)\<close>

record MiniBalanceSheet =
  cash :: real
  ar :: real
  inventory :: real
  ppe :: real
  ap :: real
  debt :: real
  retained_earnings :: real
  other_equity :: real

record FinancialDrivers =
  units_sold :: real
  avg_price :: real
  unit_cost :: real
  opex_base :: real
  capex_base :: real
  dso :: real
  dpo :: real
  dio :: real

record FinancialParams =
  period_days :: real
  min_cash_buffer :: real
  depreciation_life_years :: real
  price_to_units :: real
  morale_to_units :: real
  credibility_to_price :: real
  scrap_rate :: real

record MiniPnL =
  revenue :: real
  cogs :: real
  gross_profit :: real
  opex :: real
  ebitda :: real
  depreciation :: real
  ebit :: real
  interest :: real
  taxes :: real
  net_income :: real

record MiniCashFlow =
  cfo :: real
  cfi :: real
  cff :: real

record FinancialSnapshot =
  cash_open :: real
  pnl :: MiniPnL
  cashflow :: MiniCashFlow
  balance :: MiniBalanceSheet
  cash_close :: real
  balance_ok :: bool
  cash_recon_ok :: bool
  fin_notes :: "string list"

record Policy =
  dividend :: bool
  repay_debt :: bool

text \<open>
  \<open>policy\<close> and \<open>direct_cash_spending\<close> are optional members of the input; the
  destructuring default of the latter is 0.
\<close>

record FinanceInput =
  prev_balance :: MiniBalanceSheet
  drivers :: FinancialDrivers
  params :: FinancialParams
  policy :: "Policy option"
  direct_cash_spending :: "real option"

text \<open>
  The financing step of \<open>computeFinancials\<close>: the mutable locals \<open>cff\<close>, \<open>debt\<close>,
  \<open>retained_earnings\<close>, \<open>cash_close_prov\<close> and \<open>notes\<close> after the
  \<open>if / else if\<close> on the provisional close.
\<close>

definition financing ::
  "real \<Rightarrow> Policy option \<Rightarrow> real \<Rightarrow> real \<Rightarrow> real \<Rightarrow> string list
     \<Rightarrow> real \<times> real \<times> real \<times> real \<times> string list" where
  "financing buffer pol debt0 re0 prov0 notes0 =
     (if prov0 < buffer then
        (let needed = buffer - prov0
         in (0 + needed, debt0 + needed, re0, prov0 + needed,
             notes0 @ [''Debt draw to maintain minimum cash buffer.'']))
      else if (case pol of None \<Rightarrow> False | Some p \<Rightarrow> dividend p) \<and> re0 > 0 \<and> prov0 > buffer then
        (let dv = min re0 ((prov0 - buffer) * 0.25)
         in if dv > 0 then
              (0 - dv, debt0, re0 - dv, prov0 - dv,
               notes0 @ [''Dividend paid from retained earnings.''])
            else (0, debt0, re0, prov0, notes0))
      else (0, debt0, re0, prov0, notes0))"

text \<open>The texts of the two notes the checks can push.\<close>

definition plug_note :: string where
  "plug_note = ''Applied immaterial retained earnings plug to balance assets=liabilities+equity.''"

definition drift_note :: string where
  "drift_note = ''Cash reconciliation drifted; review CFO/CFI/CFF.''"

text \<open>
  The end of \<open>computeFinancials\<close>, from \<open>const cash_close\<close> on: the cash floor, the
  balance sheet, the two checks with the retained-earnings plug, and the snapshot. Its
  last argument is what the financing step left in \<open>cff\<close>, \<open>debt\<close>,
  \<open>retained_earnings\<close>, \<open>cash_close_prov\<close> and \<open>notes\<close>.
\<close>

definition build_snapshot ::
  "real \<Rightarrow> MiniPnL \<Rightarrow> real \<Rightarrow> real \<Rightarrow> real \<Rightarrow> real \<Rightarrow> real \<Rightarrow> real \<Rightarrow> real \<Rightarrow> real
     \<Rightarrow> real \<times> real \<times> real \<times> real \<times> string list \<Rightarrow> FinancialSnapshot" where
  "build_snapshot cash_open_v pnl_v cfo_v cfi_v direct_cash_flow ar_v inventory_v ppe_v ap_v
       other_equity_v fin =
     (case fin of (cff_v, debt_v, retained_earnings_v, cash_close_prov, notes2) \<Rightarrow>
        (let cash_close_v = cash_open_v + cfo_v + cfi_v + cff_v + direct_cash_flow;
             cash_v = max 0 cash_close_v;
             assets = cash_v + ar_v + inventory_v + ppe_v;
             liab_eq = ap_v + debt_v + other_equity_v + retained_earnings_v;
             balance_ok0 = (\<bar>assets - liab_eq\<bar> < 1 / 1000000);
             plug = assets - liab_eq;
             balance_v = \<lparr> cash = cash_v, ar = ar_v, inventory = inventory_v, ppe = ppe_v,
                           ap = ap_v, debt = debt_v,
                           retained_earnings =
                             (if balance_ok0 then retained_earnings_v
                              else retained_earnings_v + plug),
                           other_equity = other_equity_v \<rparr>;
             notes3 = (if balance_ok0 then notes2
                       else notes2 @ [plug_note]);
             cash_recon_ok_v = (\<bar>cash_close_v - cash_close_prov\<bar> < 1 / 1000000);
             notes4 = (if cash_recon_ok_v then notes3
                       else notes3 @ [drift_note])
         in \<lparr> cash_open = cash_open_v,
              pnl = pnl_v,
              cashflow = \<lparr> cfo = cfo_v, cfi = cfi_v, cff = cff_v \<rparr>,
              balance = balance_v,
              cash_close = cash_v,
              balance_ok = True,
              cash_recon_ok = cash_recon_ok_v,
              fin_notes = notes4 \<rparr>))"

definition computeFinancials :: "FinanceInput \<Rightarrow> FinancialSnapshot" where
  "computeFinancials inp =
     (let prev = prev_balance inp; drv = drivers inp; prm = params inp;
          spending = (case direct_cash_spending inp of None \<Rightarrow> 0 | Some v \<Rightarrow> v);
          cash_open_v = cash prev;
          revenue_v = units_sold drv * avg_price drv;
          cogs_core = units_sold drv * unit_cost drv;
          cogs_scrap = cogs_core * scrap_rate prm;
          cogs_v = cogs_core + cogs_scrap;
          notes1 = (if scrap_rate prm > 0
                    then [''Applied scrap/returns factor '' @ toFixed 3 (scrap_rate prm) @ '' to COGS.'']
                    else []);
          gross_profit_v = revenue_v - cogs_v;
          opex_v = opex_base drv;
          ebitda_v = gross_profit_v - opex_v;
          dep_life_years = max 1 (depreciation_life_years prm);
          depreciation_v = ppe prev / dep_life_years / 12 * (period_days prm / 30);
          ebit_v = ebitda_v - depreciation_v;
          interest_v = debt prev * 0;
          taxes_v = max 0 (ebit_v - interest_v) * 0;
          net_income_v = ebit_v - interest_v - taxes_v;
          period = max 1 (period_days prm);
          ar_v = revenue_v * (dso drv / period);
          inventory_v = cogs_v * (dio drv / period);
          ap_v = cogs_v * (dpo drv / period);
          dAR = ar_v - ar prev;
          dInv = inventory_v - inventory prev;
          dAP = ap_v - ap prev;
          deltaNWC = dAR + dInv - dAP;
          capex = capex_base drv;
          ppe_v = max 0 (ppe prev + capex - depreciation_v);
          cfo_v = net_income_v + depreciation_v - deltaNWC;
          cfi_v = - capex;
          direct_cash_flow = - spending;
          other_equity_v = other_equity prev;
          pnl_v = \<lparr> revenue = revenue_v, cogs = cogs_v, gross_profit = gross_profit_v,
                    opex = opex_v, ebitda = ebitda_v, depreciation = depreciation_v,
                    ebit = ebit_v, interest = interest_v, taxes = taxes_v,
                    net_income = net_income_v \<rparr>
      in build_snapshot cash_open_v pnl_v cfo_v cfi_v direct_cash_flow ar_v inventory_v ppe_v ap_v
           other_equity_v
           (financing (min_cash_buffer prm) (policy inp) (debt prev)
              (retained_earnings prev + net_income_v)
              (cash_open_v + cfo_v + cfi_v + 0 + direct_cash_flow) notes1))"

text \<open>The constants of engine.ts that feed the financial engine.\<close>

definition FINANCE_PARAMS_DEFAULT :: FinancialParams where
  "FINANCE_PARAMS_DEFAULT =
     \<lparr> period_days = 30, min_cash_buffer = 250000, depreciation_life_years = 5,
       price_to_units = 0, morale_to_units = 0, credibility_to_price = 0, scrap_rate = 0 \<rparr>"

definition STARTING_BALANCE :: MiniBalanceSheet where
  "STARTING_BALANCE =
     \<lparr> cash = 1000000, ar = 250000, inventory = 300000, ppe = 2000000,
       ap = 200000, debt = 0, retained_earnings = 1350000, other_equity = 1700000 \<rparr>"

definition BASELINE_DRIVERS :: FinancialDrivers where
  "BASELINE_DRIVERS =
     \<lparr> units_sold = 10000, avg_price = 100, unit_cost = 60, opex_base = 300000,
       capex_base = 50000, dso = 30, dpo = 30, dio = 45 \<rparr>"




text \<open>The baseline scenario, with any policy and any direct spending.\<close>

definition baseline_input :: "Policy option \<Rightarrow> real option \<Rightarrow> FinanceInput" where
  "baseline_input pol dcs =
     \<lparr> prev_balance = STARTING_BALANCE, drivers = BASELINE_DRIVERS,
       params = FINANCE_PARAMS_DEFAULT, policy = pol, direct_cash_spending = dcs \<rparr>"


section \<open>The data of the engine (contracts.ts)\<close>

text \<open>
  Where two object types of the source share a member name, the members of \<open>State\<close>
  keep it and the others carry a prefix: \<open>cap_\<close> for \<open>Caps\<close>, \<open>sig_\<close> for the
  signal set, \<open>d_\<close> for a delta record, \<open>tr_\<close> for the turn record. Enum values are
  capitalised.
\<close>

record Caps =
  cap_morale :: real
  cap_credibility :: real
  cap_service_risk :: real
  cap_backlog_pressure :: real

definition DEFAULT_CAPS :: Caps where
  "DEFAULT_CAPS =
     \<lparr> cap_morale = 3, cap_credibility = 2, cap_service_risk = 0.6, cap_backlog_pressure = 1 \<rparr>"

datatype Direction = Dir_up | Dir_down | Dir_none

record DirStrength =
  dir :: Direction
  strength :: real

record Signals =
  sig_morale :: DirStrength
  sig_credibility :: DirStrength
  sig_backlog_pressure :: DirStrength
  sig_service_risk :: DirStrength

record Assessment =
  intent :: "string list"
  targets :: "string list"
  tone :: string
  fit_reasons :: "string list"

text \<open>
  \<open>impact_channels\<close> is an object whose members are all optional; it is read through
  \<open>Object.entries\<close>, so it is the list of its entries, a member set to \<open>undefined\<close>
  being \<open>None\<close>.
\<close>

record EvalEvent =
  ev_roll :: real
  ev_event_type :: string
  impact_channels :: "(string \<times> DirStrength option) list"
  severity_note :: string

datatype Synergy = Aligned | Undermined | Neutral

record Integrated =
  synergy :: Synergy
  narrative_hook :: string

record Penalties =
  nonsense_penalty :: real

record PolicyBlock =
  oob :: bool
  violations :: "string list"

record EvaluatorOutput =
  assessment :: Assessment
  signals :: Signals
  event :: EvalEvent
  integrated :: Integrated
  penalties :: Penalties
  eo_policy :: PolicyBlock
  rationale :: string

record StatePnl =
  pnl_revenue :: real
  pnl_cogs :: real
  gm_percent :: real
  pnl_opex :: real
  net :: real
  pnl_cash :: real

record Kpis =
  share_percent :: real
  service_nps :: real
  kpi_morale :: real
  backlog_units :: real

datatype EventCategory = Market | Operational | Financial | Regulatory | Competitive

datatype LegacyTier = Low | Medium | High | Critical

record LegacyEvent =
  legacy_category :: EventCategory
  legacy_tier :: LegacyTier

record Flags =
  supply_fragile :: bool
  labor_tense :: bool
  quality_watch :: bool
  flag_tail_risk :: bool
  flag_supply :: real
  labor :: real
  quality :: real
  competition :: real
  finance :: real
  regulation :: real
  tech :: real
  weather :: real

record Pressures =
  margin_push :: bool

record Headroom =
  ot_pct :: real
  temps_allowed :: bool

record Effects =
  revenue_delta :: real
  cogs_delta :: real
  opex_delta :: real
  cash_delta :: real
  share_delta :: real
  nps_delta :: real
  morale_delta :: real
  backlog_delta :: real
  effect_notes :: string

datatype Decay = Slow | Fast

record ActiveEvent =
  ae_category :: string
  ae_tier :: real
  ae_name :: string
  ae_effects :: Effects
  decay :: Decay

text \<open>
  \<open>state_financials\<close> is the member \<open>financials\<close> that \<open>getPrevBalanceFromState\<close>
  reads from the state as an untyped object; the schema of \<open>State\<close> does not have it.
\<close>

record State =
  turn_no :: int
  period :: "string option"
  state_pnl :: "StatePnl option"
  kpis :: "Kpis option"
  legacy_event :: LegacyEvent
  morale :: real
  credibility :: real
  backlog :: real
  service :: real
  share :: real
  cash_runway :: real
  flags :: Flags
  pressures :: Pressures
  headroom :: Headroom
  recent_moves :: "string list"
  tail_risk :: "real option"
  shock_decay :: "real option"
  reward_decay :: "real option"
  ceo_credibility :: "real option"
  active_shocks :: "ActiveEvent list option"
  active_rewards :: "ActiveEvent list option"
  state_notes :: "string list option"
  state_financials :: "FinancialSnapshot option"

record Deltas =
  d_morale :: real
  d_credibility :: real
  d_backlog :: real
  d_service :: real
  d_share :: real
  d_cash_runway :: real

record TurnResult =
  tr_turn_no :: int
  state_before :: State
  state_after :: State
  tr_declaration :: string
  tr_assessment :: Assessment
  tr_signals :: Signals
  tr_event :: EvalEvent
  tr_integrated :: Integrated
  tr_penalties :: Penalties
  tr_policy :: PolicyBlock
  deltas :: Deltas
  applied_deltas :: Deltas
  financials :: FinancialSnapshot
  explainers_finance :: "string list"
  narrative :: string
  quotes :: "string list"

section \<open>The signal resolver (engine.ts)\<close>

text \<open>
  A delta map (\<open>Record<string, number>\<close>) is the list of its entries in insertion
  order; writing \<open>deltas[key] = v\<close> is \<open>AList.update\<close>, which overwrites in place or
  appends. \<open>deltas[key] || 0\<close> is \<open>get_or0\<close>. Keys are taken not to name members of
  \<open>Object.prototype\<close>.
\<close>

definition get_or0 :: "(string \<times> real) list \<Rightarrow> string \<Rightarrow> real" where
  "get_or0 d k = (case map_of d k of None \<Rightarrow> 0 | Some v \<Rightarrow> v)"

text \<open>\<open>caps[key]\<close>: \<open>undefined\<close> for a key that is not a member of \<open>Caps\<close>.\<close>

definition caps_get :: "Caps \<Rightarrow> string \<Rightarrow> real option" where
  "caps_get caps key =
     (if key = ''morale'' then Some (cap_morale caps)
      else if key = ''credibility'' then Some (cap_credibility caps)
      else if key = ''service_risk'' then Some (cap_service_risk caps)
      else if key = ''backlog_pressure'' then Some (cap_backlog_pressure caps)
      else None)"

text \<open>\<open>caps[key] || 1.0\<close>: a missing cap and a cap of 0 both give 1.\<close>

definition cap_or1 :: "Caps \<Rightarrow> string \<Rightarrow> real" where
  "cap_or1 caps key = (case caps_get caps key of None \<Rightarrow> 1 | Some v \<Rightarrow> if v = 0 then 1 else v)"

definition applyContextMods :: "State \<Rightarrow> State" where
  "applyContextMods state =
     (let modded1 =
            (if labor_tense (flags state)
             then state\<lparr> morale := min 100 (morale state * 1.2),
                         credibility := max 0 (credibility state * 0.9) \<rparr>
             else state)
      in if morale modded1 > 85 then modded1\<lparr> morale := max 0 (morale modded1 * 0.8) \<rparr>
         else modded1)"

text \<open>The body of the \<open>forEach\<close> of \<open>applyCEOSignals\<close>: the value stored under \<open>key\<close>.\<close>

definition ceo_delta :: "Caps \<Rightarrow> State \<Rightarrow> string \<Rightarrow> DirStrength \<Rightarrow> real" where
  "ceo_delta caps state key signal =
     (if dir signal = Dir_none then 0
      else (let sign = (if dir signal = Dir_up then 1 else - 1);
                st = strength signal
            in if key = ''backlog'' then
                 (let unitsDelta = real_of_int (js_round (st * 250)) * sign;
                      supplyMod = (if supply_fragile (flags state) then 1.2 else 1)
                  in unitsDelta * supplyMod)
               else (let cap = cap_or1 caps key in st * cap * sign)))"

definition applyCEOSignals :: "Signals \<Rightarrow> State \<Rightarrow> Caps \<Rightarrow> (string \<times> real) list" where
  "applyCEOSignals sigs state caps =
     (let legacySignals =
            [(''morale'', sig_morale sigs), (''credibility'', sig_credibility sigs),
             (''backlog'', sig_backlog_pressure sigs), (''service'', sig_service_risk sigs)]
      in fold (\<lambda>(key, signal) ds. AList.update key (ceo_delta caps state key signal) ds)
           legacySignals [])"

text \<open>The body of the \<open>forEach\<close> of \<open>applyEventImpact\<close>: the delta map after one entry.\<close>

definition event_step ::
  "Caps \<Rightarrow> State \<Rightarrow> string \<times> DirStrength option \<Rightarrow> (string \<times> real) list \<Rightarrow> (string \<times> real) list" where
  "event_step caps state entry ds =
     (case entry of
        (key, None) \<Rightarrow> ds
      | (key, Some signal) \<Rightarrow>
          if dir signal = Dir_none then ds
          else (let sign = (if dir signal = Dir_up then 1 else - 1);
                    st = strength signal;
                    stateKey1 = (if key = ''backlog_pressure'' then ''backlog'' else key);
                    stateKey = (if key = ''service_risk'' then ''service'' else stateKey1)
                in if stateKey = ''backlog'' then
                     (let unitsDelta = real_of_int (js_round (st * 200)) * sign;
                          supplyMod = (if supply_fragile (flags state) then 1.3 else 1)
                      in AList.update stateKey (get_or0 ds stateKey + unitsDelta * supplyMod) ds)
                   else (let cap = cap_or1 caps key
                         in AList.update stateKey (get_or0 ds stateKey + st * cap * sign * 0.8) ds)))"

definition applyEventImpact ::
  "(string \<times> DirStrength option) list \<Rightarrow> State \<Rightarrow> Caps \<Rightarrow> (string \<times> real) list" where
  "applyEventImpact eventImpact state caps = fold (event_step caps state) eventImpact []"

definition applyNonsensePenalty :: "real \<Rightarrow> State \<Rightarrow> Caps \<Rightarrow> (string \<times> real) list" where
  "applyNonsensePenalty nonsensePenalty state caps =
     (if nonsensePenalty \<le> 0 then []
      else (let penaltyCap = cap_credibility caps * 0.2;
                credibilityPenalty = - nonsensePenalty * penaltyCap;
                moralePenalty = (if credibility state < 50
                                 then - nonsensePenalty * cap_morale caps * 0.1 else 0)
            in [(''credibility'', credibilityPenalty), (''morale'', moralePenalty)]))"

text \<open>\<open>combinedDeltas[key] = (combinedDeltas[key] || 0) + delta\<close> over the entries of a map.\<close>

definition add_deltas :: "(string \<times> real) list \<Rightarrow> (string \<times> real) list \<Rightarrow> (string \<times> real) list" where
  "add_deltas extra combined =
     fold (\<lambda>(key, delta) ds. AList.update key (get_or0 ds key + delta) ds) extra combined"

definition applySignals :: "EvaluatorOutput \<Rightarrow> State \<Rightarrow> Caps \<Rightarrow> (string \<times> real) list" where
  "applySignals evaluatorOutput state caps =
     (let ceoDeltas = applyCEOSignals (signals evaluatorOutput) state caps;
          eventDeltas = applyEventImpact (impact_channels (event evaluatorOutput)) state caps;
          penaltyDeltas =
            applyNonsensePenalty (nonsense_penalty (penalties evaluatorOutput)) state caps
      in add_deltas penaltyDeltas (add_deltas eventDeltas ceoDeltas))"

definition delta_cap :: "Caps \<Rightarrow> string \<Rightarrow> real" where
  "delta_cap caps key =
     (if key = ''morale'' then cap_morale caps
      else if key = ''credibility'' then cap_credibility caps
      else if key = ''service'' then cap_service_risk caps
      else if key = ''backlog'' then cap_backlog_pressure caps * 250
      else if key = ''share'' then cap_backlog_pressure caps
      else if key = ''cash_runway'' then cap_backlog_pressure caps
      else 1)"

text \<open>\<open>if (key in applied) applied[key] = clamped\<close>.\<close>

definition set_applied :: "string \<Rightarrow> real \<Rightarrow> Deltas \<Rightarrow> Deltas" where
  "set_applied key v applied =
     (if key = ''morale'' then applied\<lparr> d_morale := v \<rparr>
      else if key = ''credibility'' then applied\<lparr> d_credibility := v \<rparr>
      else if key = ''backlog'' then applied\<lparr> d_backlog := v \<rparr>
      else if key = ''service'' then applied\<lparr> d_service := v \<rparr>
      else if key = ''share'' then applied\<lparr> d_share := v \<rparr>
      else if key = ''cash_runway'' then applied\<lparr> d_cash_runway := v \<rparr>
      else applied)"

text \<open>The body of the \<open>forEach\<close> of \<open>clampDeltas\<close>.\<close>

definition clamp_step :: "Caps \<Rightarrow> string \<times> real \<Rightarrow> Deltas \<Rightarrow> Deltas" where
  "clamp_step caps entry applied =
     (case entry of (key, delta) \<Rightarrow>
        (let cap = delta_cap caps key;
             clamped = max (- cap) (min cap delta)
         in set_applied key clamped applied))"

definition clampDeltas :: "(string \<times> real) list \<Rightarrow> State \<Rightarrow> Caps \<Rightarrow> Deltas" where
  "clampDeltas ds state caps =
     fold (clamp_step caps) ds
       \<lparr> d_morale = 0, d_credibility = 0, d_backlog = 0, d_service = 0, d_share = 0,
         d_cash_runway = 0 \<rparr>"

section \<open>Detecting direct cash spending (engine.ts)\<close>

text \<open>
  The regular expressions of \<open>detectCashSpending\<close> use literals, the classes \<open>\d\<close> and
  \<open>\s\<close>, greedy \<open>*\<close>, \<open>+\<close> and \<open>?\<close>, alternation and one capturing group. \<open>rx_match\<close>
  is the backtracking matcher at a fixed start: it lists, in the order in which
  backtracking tries them, every way the expression can match a prefix, each with the rest
  of the input and the text of group 1.
\<close>

datatype cclass = Digit | Space

fun in_class :: "cclass \<Rightarrow> char \<Rightarrow> bool" where
  "in_class Digit c = (48 \<le> (of_char c :: nat) \<and> (of_char c :: nat) \<le> 57)"
| "in_class Space c = ((of_char c :: nat) \<in> {9, 10, 11, 12, 13, 32, 160})"

datatype rx = Lit string | Cls cclass | Many cclass | Seq rx rx | Alt rx rx | Opt rx | Cap rx

fun rx_match :: "rx \<Rightarrow> string \<Rightarrow> string option \<Rightarrow> (string \<times> string option) list" where
  "rx_match (Lit l) s c = (if take (length l) s = l then [(drop (length l) s, c)] else [])"
| "rx_match (Cls k) s c =
     (case s of [] \<Rightarrow> [] | x # xs \<Rightarrow> if in_class k x then [(xs, c)] else [])"
| "rx_match (Many k) s c =
     map (\<lambda>n. (drop n s, c)) (rev [0 ..< Suc (length (takeWhile (in_class k) s))])"
| "rx_match (Seq a b) s c = concat (map (\<lambda>(s', c'). rx_match b s' c') (rx_match a s c))"
| "rx_match (Alt a b) s c = rx_match a s c @ rx_match b s c"
| "rx_match (Opt a) s c = rx_match a s c @ [(s, c)]"
| "rx_match (Cap a) s c =
     map (\<lambda>(s', c'). (s', Some (take (length s - length s') s))) (rx_match a s c)"

text \<open>
  \<open>String.prototype.match\<close> without the \<open>g\<close> flag: the first way to match at the
  leftmost start that has one. The result is \<open>None\<close> for \<open>null\<close>, and otherwise
  \<open>match[1]\<close>, itself \<open>None\<close> when group 1 took no part.
\<close>

fun rx_search :: "rx \<Rightarrow> string \<Rightarrow> string option option" where
  "rx_search r [] = (case rx_match r [] None of [] \<Rightarrow> None | (s', c) # rest \<Rightarrow> Some c)"
| "rx_search r (x # xs) =
     (case rx_match r (x # xs) None of [] \<Rightarrow> rx_search r xs | (s', c) # rest \<Rightarrow> Some c)"

fun alts :: "string list \<Rightarrow> rx" where
  "alts [] = Lit []"
| "alts [a] = Lit a"
| "alts (a # b # bs) = Alt (Lit a) (alts (b # bs))"

fun seqs :: "rx list \<Rightarrow> rx" where
  "seqs [] = Lit []"
| "seqs [a] = a"
| "seqs (a # b # bs) = Seq a (seqs (b # bs))"

text \<open>\<open>(\d+(?:\.\d+)?)\<close>\<close>

definition number_rx :: rx where
  "number_rx =
     Cap (seqs [Cls Digit, Many Digit, Opt (seqs [Lit ''.'', Cls Digit, Many Digit])])"

text \<open>\<open>(\d+(?:\.\d+)?)\s*(?:UNIT|U)\s*(?:in|on|for|to)\s*(?:employee|staff|bonus|bonuses)\<close>\<close>

definition amount_rx :: "string list \<Rightarrow> rx" where
  "amount_rx units =
     seqs [number_rx, Many Space, alts units, Many Space, alts [''in'', ''on'', ''for'', ''to''],
           Many Space, alts [''employee'', ''staff'', ''bonus'', ''bonuses'']]"

text \<open>\<open>(?:spend|use|give)\s*(\d+(?:\.\d+)?)%\s*(?:of\s*)?(?:our\s*)?(?:cash|money)\<close>\<close>

definition percent_rx :: rx where
  "percent_rx =
     seqs [alts [''spend'', ''use'', ''give''], Many Space, number_rx, Lit ''%'', Many Space,
           Opt (seqs [Lit ''of'', Many Space]), Opt (seqs [Lit ''our'', Many Space]),
           alts [''cash'', ''money'']]"

text \<open>\<open>(?:spend|use|give)\s*(?:all|100%)\s*(?:of\s*)?(?:our\s*)?(?:cash|money)\<close>\<close>

definition all_rx :: rx where
  "all_rx =
     seqs [alts [''spend'', ''use'', ''give''], Many Space, alts [''all'', ''100%''], Many Space,
           Opt (seqs [Lit ''of'', Many Space]), Opt (seqs [Lit ''our'', Many Space]),
           alts [''cash'', ''money'']]"

text \<open>The pattern table: expression, multiplier, \<open>isPercentage\<close>.\<close>

definition cashPatterns :: "(rx \<times> real \<times> bool) list" where
  "cashPatterns =
     [(amount_rx [''million'', ''m''], 1000000, False),
      (amount_rx [''thousand'', ''k''], 1000, False),
      (amount_rx [''billion'', ''b''], 1000000000, False),
      (percent_rx, 1, True),
      (all_rx, 1, True)]"

text \<open>\<open>toLowerCase\<close> on code units below 256.\<close>

definition lower_char :: "char \<Rightarrow> char" where
  "lower_char c =
     (let n = (of_char c :: nat)
      in if (65 \<le> n \<and> n \<le> 90) \<or> (192 \<le> n \<and> n \<le> 222 \<and> n \<noteq> 215) then char_of (n + 32) else c)"

definition digits_val :: "string \<Rightarrow> nat" where
  "digits_val s = foldl (\<lambda>a c. 10 * a + ((of_char c :: nat) - 48)) 0 s"

text \<open>\<open>parseFloat\<close> on the text of group 1, which is digits with an optional fraction.\<close>

definition parse_decimal :: "string \<Rightarrow> real" where
  "parse_decimal s =
     (let ip = takeWhile (\<lambda>c. c \<noteq> CHR ''.'') s;
          fp = drop (length ip + 1) s
      in real (digits_val ip) + real (digits_val fp) / 10 ^ length fp)"

text \<open>
  The loop over the pattern table. In a percentage pattern a missing group 1 gives 1.0; an
  amount pattern cannot match without group 1.
\<close>

fun first_pattern :: "(rx \<times> real \<times> bool) list \<Rightarrow> string \<Rightarrow> real" where
  "first_pattern [] s = 0"
| "first_pattern ((pattern, multiplier, isPercentage) # ps) s =
     (case rx_search pattern s of
        None \<Rightarrow> first_pattern ps s
      | Some g1 \<Rightarrow>
          if isPercentage then
            (case g1 of None \<Rightarrow> 1 | Some g \<Rightarrow> if g = [] then 1 else parse_decimal g / 100)
          else (case g1 of None \<Rightarrow> 0 | Some g \<Rightarrow> parse_decimal g * multiplier))"

definition detectCashSpending :: "string \<Rightarrow> EvaluatorOutput \<Rightarrow> real" where
  "detectCashSpending decl evaluatorOutput =
     (let lowerDecl = map lower_char decl in first_pattern cashPatterns lowerDecl)"

section \<open>The turn resolver (engine.ts)\<close>

definition clamp :: "real \<Rightarrow> real \<Rightarrow> real \<Rightarrow> real" where
  "clamp x lo hi = min hi (max lo x)"

definition sgn_dir :: "Direction \<Rightarrow> real" where
  "sgn_dir d = (if d = Dir_up then 1 else if d = Dir_down then - 1 else 0)"

text \<open>
  \<open>hashStr\<close>: 32-bit FNV-1a. \<open>^=\<close> and \<open>Math.imul\<close> work on 32 bits, and the final
  \<open>>>> 0\<close> reads the bits unsigned.
\<close>

definition hashStr :: "string \<Rightarrow> nat" where
  "hashStr s =
     unat (fold (\<lambda>c h. (h XOR (of_nat (of_char c) :: 32 word)) * 16777619) s
             (2166136261 :: 32 word))"

record Coef =
  coef_morale_to_units :: real
  coef_cred_to_price :: real
  coef_backlog_to_units :: real
  coef_service_to_returns :: real
  coef_service_to_dso_days :: real
  coef_backlog_to_dio_days :: real
  coef_supplyFragile_to_dio :: real
  coef_regProbe_to_dso :: real

definition COEF :: Coef where
  "COEF =
     \<lparr> coef_morale_to_units = 0.06, coef_cred_to_price = 0.02, coef_backlog_to_units = - 0.08,
       coef_service_to_returns = 0.03, coef_service_to_dso_days = 3,
       coef_backlog_to_dio_days = 4, coef_supplyFragile_to_dio = 3, coef_regProbe_to_dso = 2 \<rparr>"

record DriverBounds =
  units_min :: real
  units_max :: real
  price_min :: real
  price_max :: real
  cost_min :: real
  cost_max :: real
  dso_min :: real
  dso_max :: real
  dpo_min :: real
  dpo_max :: real
  dio_min :: real
  dio_max :: real
  capex_min :: real
  capex_max :: real

definition DRIVER_BOUNDS :: DriverBounds where
  "DRIVER_BOUNDS =
     \<lparr> units_min = 100, units_max = 1000000, price_min = 10, price_max = 10000,
       cost_min = 5, cost_max = 9999, dso_min = 5, dso_max = 90, dpo_min = 5, dpo_max = 90,
       dio_min = 5, dio_max = 120, capex_min = 0, capex_max = 5000000 \<rparr>"

definition getPrevBalanceFromState :: "State \<Rightarrow> MiniBalanceSheet" where
  "getPrevBalanceFromState state =
     (case state_financials state of None \<Rightarrow> STARTING_BALANCE | Some f \<Rightarrow> balance f)"

text \<open>\<open>ic.KEY?.dir === "up"\<close>, and the strength read under the same key.\<close>

definition channel_up :: "(string \<times> DirStrength option) list \<Rightarrow> string \<Rightarrow> bool" where
  "channel_up ic key = (case map_of ic key of Some (Some sg) \<Rightarrow> dir sg = Dir_up | _ \<Rightarrow> False)"

definition channel_strength :: "(string \<times> DirStrength option) list \<Rightarrow> string \<Rightarrow> real" where
  "channel_strength ic key = (case map_of ic key of Some (Some sg) \<Rightarrow> strength sg | _ \<Rightarrow> 0)"

text \<open>
  The part of \<open>resolveTurn\<close> between \<open>// Start from stable baselines\<close> and the
  construction of \<open>financeInput\<close>: the drivers, the parameters and the explainers, each
  assignment of the source giving the next numbered version of its variable.
\<close>

definition turn_drivers ::
  "State \<Rightarrow> string \<Rightarrow> EvaluatorOutput \<Rightarrow> FinancialDrivers \<times> FinancialParams \<times> string list" where
  "turn_drivers state decl evaluatorOutput =
     (let sg = signals evaluatorOutput;
          drivers0 = BASELINE_DRIVERS;
          params0 = FINANCE_PARAMS_DEFAULT;
          m = sgn_dir (dir (sig_morale sg)) * strength (sig_morale sg);
          (drivers1, ex1) =
            (if m \<noteq> 0 then
               (drivers0\<lparr> units_sold := units_sold drivers0 * (1 + coef_morale_to_units COEF * m) \<rparr>,
                [if m > 0 then ''Higher morale lifted throughput/demand''
                 else ''Lower morale softened throughput''])
             else (drivers0, []));
          c = sgn_dir (dir (sig_credibility sg)) * strength (sig_credibility sg);
          (drivers2, ex2) =
            (if c \<noteq> 0 then
               (drivers1\<lparr> avg_price := avg_price drivers1 * (1 + coef_cred_to_price COEF * c) \<rparr>,
                ex1 @ [if c > 0 then ''Rising credibility supported ASP''
                       else ''Credibility strain pressured pricing''])
             else (drivers1, ex1));
          b = sgn_dir (dir (sig_backlog_pressure sg)) * strength (sig_backlog_pressure sg);
          (drivers3, ex3) =
            (if b \<noteq> 0 then
               (drivers2\<lparr> units_sold := units_sold drivers2 * (1 + coef_backlog_to_units COEF * b) \<rparr>,
                ex2 @ [if b > 0 then ''Backlog pressure constrained fulfilled units''
                       else ''Easing backlog improved fulfillment''])
             else (drivers2, ex2));
          s = sgn_dir (dir (sig_service_risk sg)) * strength (sig_service_risk sg);
          (params1, ex4) =
            (if s \<noteq> 0 then
               (params0\<lparr> scrap_rate :=
                   clamp (scrap_rate params0 + coef_service_to_returns COEF * max 0 s) 0 0.25 \<rparr>,
                ex3 @ [if s > 0 then ''Service risk increased scrap/returns''
                       else ''Lower service risk reduced scrap/returns''])
             else (params0, ex3));
          dso0 = dso drivers3;
          dpo0 = dpo drivers3;
          dio0 = dio drivers3;
          dso1 = (if s > 0 then dso0 + coef_service_to_dso_days COEF * s else dso0);
          dio1 = (if b > 0 then dio0 + coef_backlog_to_dio_days COEF * b else dio0);
          (dio2, ex5) =
            (if supply_fragile (flags state)
             then (dio1 + coef_supplyFragile_to_dio COEF,
                   ex4 @ [''Supply fragility extended inventory days''])
             else (dio1, ex4));
          (dso2, ex6) =
            (if ev_event_type (event evaluatorOutput) = ''reg_probe''
             then (dso1 + coef_regProbe_to_dso COEF,
                   ex5 @ [''Regulatory scrutiny stretched receivables''])
             else (dso1, ex5));
          drivers4 = drivers3\<lparr> dso := clamp dso2 (dso_min DRIVER_BOUNDS) (dso_max DRIVER_BOUNDS),
                                dpo := clamp dpo0 (dpo_min DRIVER_BOUNDS) (dpo_max DRIVER_BOUNDS),
                                dio := clamp dio2 (dio_min DRIVER_BOUNDS) (dio_max DRIVER_BOUNDS) \<rparr>;
          pen = max 0 (nonsense_penalty (penalties evaluatorOutput));
          (drivers5, ex7) =
            (if pen > 0 then
               (let h = hashStr decl;
                    splitToUnits = (h mod 2 = 0)
                in if splitToUnits then
                     (drivers4\<lparr> units_sold := units_sold drivers4 * (1 - 0.01 * pen) \<rparr>,
                      ex6 @ [''Minor reputational drag softened demand''])
                   else
                     (drivers4\<lparr> avg_price := avg_price drivers4 * (1 - 0.01 * pen) \<rparr>,
                      ex6 @ [''Minor reputational drag trimmed pricing power'']))
             else (drivers4, ex6));
          ic = impact_channels (event evaluatorOutput);
          (params2, ex8) =
            (if channel_up ic ''service_risk'' then
               (params1\<lparr> scrap_rate :=
                   clamp (scrap_rate params1
                            + coef_service_to_returns COEF * channel_strength ic ''service_risk'')
                     0 0.25 \<rparr>,
                ex7 @ [''Event pressure raised service friction''])
             else (params1, ex7));
          (drivers6, ex9) =
            (if channel_up ic ''backlog_pressure'' then
               (let st = channel_strength ic ''backlog_pressure'';
                    dio3 = clamp (dio2 + coef_backlog_to_dio_days COEF * st)
                             (dio_min DRIVER_BOUNDS) (dio_max DRIVER_BOUNDS)
                in (drivers5\<lparr> units_sold :=
                                  units_sold drivers5 * (1 + coef_backlog_to_units COEF * st),
                              dio := dio3 \<rparr>,
                    ex8 @ [''Event constraints limited fulfillment and inventory turns'']))
             else (drivers5, ex8));
          drivers7 =
            drivers6\<lparr> units_sold := clamp (real_of_int (js_round (units_sold drivers6)))
                                      (units_min DRIVER_BOUNDS) (units_max DRIVER_BOUNDS),
                      avg_price := clamp (avg_price drivers6)
                                     (price_min DRIVER_BOUNDS) (price_max DRIVER_BOUNDS),
                      unit_cost := clamp (unit_cost drivers6)
                                     (cost_min DRIVER_BOUNDS) (cost_max DRIVER_BOUNDS) \<rparr>;
          drivers8 =
            (if dir (sig_morale sg) = Dir_up \<and> dir (sig_backlog_pressure sg) \<noteq> Dir_up
             then drivers7\<lparr> capex_base := clamp (capex_base drivers7 * 1.05)
                                            (capex_min DRIVER_BOUNDS) (capex_max DRIVER_BOUNDS) \<rparr>
             else drivers7)
      in (drivers8, params2, ex9))"

text \<open>
  The object literal \<open>financeInput\<close>: the previous balance of the state before the
  turn, the drivers and parameters above, the fixed policy, and no
  \<open>direct_cash_spending\<close> member.
\<close>

definition turn_finance_input :: "State \<Rightarrow> string \<Rightarrow> EvaluatorOutput \<Rightarrow> FinanceInput" where
  "turn_finance_input state decl evaluatorOutput =
     (case turn_drivers state decl evaluatorOutput of
        (drivers_v, params_v, explainers0) \<Rightarrow>
          \<lparr> prev_balance = getPrevBalanceFromState state, drivers = drivers_v, params = params_v,
            policy = Some \<lparr> dividend = False, repay_debt = False \<rparr>,
            direct_cash_spending = None \<rparr>)"

text \<open>The object literal \<open>newState\<close>.\<close>

definition next_state :: "State \<Rightarrow> Deltas \<Rightarrow> string \<Rightarrow> State" where
  "next_state moddedState appliedDeltas decl =
     moddedState
       \<lparr> turn_no := turn_no moddedState + 1,
         morale := max 0 (min 100 (morale moddedState + d_morale appliedDeltas)),
         credibility := max 0 (min 100 (credibility moddedState + d_credibility appliedDeltas)),
         backlog := max 0 (backlog moddedState + d_backlog appliedDeltas),
         service := max 0 (min 100 (service moddedState + d_service appliedDeltas)),
         share := max 0 (share moddedState + d_share appliedDeltas),
         cash_runway := max 0 (cash_runway moddedState + d_cash_runway appliedDeltas),
         recent_moves :=
           (let kept = drop (length (recent_moves moddedState) - 1) (recent_moves moddedState);
                both = kept @ [decl]
            in drop (length both - 2) both) \<rparr>"

text \<open>
  The block that follows the call of \<open>computeFinancials\<close>: when spending was detected,
  the explainer is pushed and \<open>financials.balance.cash\<close> is overwritten in the snapshot.
  \<open>direct_amount\<close> is the local \<open>directCashSpending\<close>.
\<close>

definition direct_amount :: "real \<Rightarrow> MiniBalanceSheet \<Rightarrow> real" where
  "direct_amount cashSpending prevBalance =
     (if cashSpending \<le> 1 then cash prevBalance * cashSpending else cashSpending)"

definition apply_cash_spending ::
  "real \<Rightarrow> MiniBalanceSheet \<Rightarrow> FinancialSnapshot \<Rightarrow> string list \<Rightarrow> FinancialSnapshot \<times> string list" where
  "apply_cash_spending cashSpending prevBalance fin explainers =
     (if cashSpending > 0 then
        (let directCashSpending = direct_amount cashSpending prevBalance
         in (fin\<lparr> balance := (balance fin)\<lparr> cash := max 0 (cash (balance fin) - directCashSpending) \<rparr> \<rparr>,
             explainers @ [''Direct cash expenditure: $'' @ toFixed 1 (directCashSpending / 1000000) @ ''M'']))
      else (fin, explainers))"

text \<open>
  \<open>resolveTurn\<close>, with the caps of the engine instance as first argument. In
  \<open>gm_percent\<close> a revenue of 0 cannot occur: the units and the price are clamped to at
  least 100 and 10.
\<close>

definition resolveTurn :: "Caps \<Rightarrow> State \<Rightarrow> string \<Rightarrow> EvaluatorOutput \<Rightarrow> TurnResult" where
  "resolveTurn caps state decl evaluatorOutput =
     (let moddedState = applyContextMods state;
          rawDeltas = applySignals evaluatorOutput moddedState caps;
          appliedDeltas = clampDeltas rawDeltas moddedState caps;
          newState = next_state moddedState appliedDeltas decl;
          narrative_v = ''Turn '' @ string_of_int (turn_no newState) @ '' completed. The CEO''
                        @ [CHR 0x27] @ ''s declaration '' @ [CHR 0x22] @ decl @ [CHR 0x22]
                        @ '' has been processed.'';
          quotes_v = [''CFO: We'' @ [CHR 0x27] @ ''re monitoring the impact closely.'',
                      ''Chair: The board is aligned with this direction.'',
                      ''Ops: Execution is proceeding as planned.''];
          prevBalance = getPrevBalanceFromState state;
          explainers0 = snd (snd (turn_drivers state decl evaluatorOutput));
          financeInput = turn_finance_input state decl evaluatorOutput;
          financials0 = computeFinancials financeInput;
          cashSpending = detectCashSpending decl evaluatorOutput;
          (financials_v, explainers_v) =
            apply_cash_spending cashSpending prevBalance financials0 explainers0;
          newState1 = newState
            \<lparr> state_pnl := Some
                \<lparr> pnl_revenue = revenue (pnl financials_v) / 1000000,
                  pnl_cogs = cogs (pnl financials_v) / 1000000,
                  gm_percent = gross_profit (pnl financials_v) / revenue (pnl financials_v) * 100,
                  pnl_opex = opex (pnl financials_v) / 1000000,
                  net = net_income (pnl financials_v) / 1000000,
                  pnl_cash = cash (balance financials_v) / 1000000 \<rparr> \<rparr>
      in \<lparr> tr_turn_no = turn_no newState1,
           state_before = state,
           state_after = newState1,
           tr_declaration = decl,
           tr_assessment = assessment evaluatorOutput,
           tr_signals = signals evaluatorOutput,
           tr_event = event evaluatorOutput,
           tr_integrated = integrated evaluatorOutput,
           tr_penalties = penalties evaluatorOutput,
           tr_policy = eo_policy evaluatorOutput,
           deltas = \<lparr> d_morale = get_or0 rawDeltas ''morale'',
                      d_credibility = get_or0 rawDeltas ''credibility'',
                      d_backlog = get_or0 rawDeltas ''backlog_pressure'',
                      d_service = get_or0 rawDeltas ''service_risk'',
                      d_share = get_or0 rawDeltas ''share'',
                      d_cash_runway = get_or0 rawDeltas ''cash_runway'' \<rparr>,
           applied_deltas = appliedDeltas,
           financials = financials_v,
           explainers_finance = explainers_v,
           narrative = narrative_v,
           quotes = quotes_v \<rparr>)"

section \<open>The event generator (engine.ts)\<close>
























section \<open>Fixtures\<close>

text \<open>\<open>baseState\<close> and \<open>createEvaluatorOutput()\<close> of test_financial_determinism.spec.ts.\<close>

definition baseState :: State where
  "baseState =
     \<lparr> turn_no = 1, period = None, state_pnl = None, kpis = None,
       legacy_event = \<lparr> legacy_category = Market, legacy_tier = Medium \<rparr>,
       morale = 75, credibility = 80, backlog = 1000, service = 85, share = 100,
       cash_runway = 18,
       flags = \<lparr> supply_fragile = False, labor_tense = False, quality_watch = False,
                 flag_tail_risk = False, flag_supply = 0.1, labor = 0.05, quality = 0,
                 competition = 0.1, finance = 0, regulation = 0, tech = 0.05, weather = 0.05 \<rparr>,
       pressures = \<lparr> margin_push = False \<rparr>,
       headroom = \<lparr> ot_pct = 0, temps_allowed = False \<rparr>,
       recent_moves = [],
       tail_risk = None, shock_decay = None, reward_decay = None, ceo_credibility = None,
       active_shocks = None, active_rewards = None, state_notes = None,
       state_financials = None \<rparr>"

definition neutral_output :: EvaluatorOutput where
  "neutral_output =
     \<lparr> assessment = \<lparr> intent = [''test''], targets = [''test''], tone = ''neutral'',
                      fit_reasons = [''test''] \<rparr>,
       signals = \<lparr> sig_morale = \<lparr> dir = Dir_none, strength = 0 \<rparr>,
                   sig_credibility = \<lparr> dir = Dir_none, strength = 0 \<rparr>,
                   sig_backlog_pressure = \<lparr> dir = Dir_none, strength = 0 \<rparr>,
                   sig_service_risk = \<lparr> dir = Dir_none, strength = 0 \<rparr> \<rparr>,
       event = \<lparr> ev_roll = 50, ev_event_type = ''none'', impact_channels = [],
                 severity_note = ''No event'' \<rparr>,
       integrated = \<lparr> synergy = Neutral, narrative_hook = ''Test'' \<rparr>,
       penalties = \<lparr> nonsense_penalty = 0 \<rparr>,
       eo_policy = \<lparr> oob = False, violations = [] \<rparr>,
       rationale = ''Test'' \<rparr>"

text \<open>The same output with all four signals at strength 5, beyond the range of the schema.\<close>

definition strong_output :: EvaluatorOutput where
  "strong_output =
     neutral_output
       \<lparr> signals := \<lparr> sig_morale = \<lparr> dir = Dir_up, strength = 5 \<rparr>,
                      sig_credibility = \<lparr> dir = Dir_down, strength = 5 \<rparr>,
                      sig_backlog_pressure = \<lparr> dir = Dir_up, strength = 5 \<rparr>,
                      sig_service_risk = \<lparr> dir = Dir_down, strength = 5 \<rparr> \<rparr> \<rparr>"

definition spend_decl :: string where
  "spend_decl = ''Spend 10% of our cash on bonuses''"

definition invest_decl :: string where
  "invest_decl = ''Invest in R&D''"





section \<open>Predicates of the statements\<close>



text \<open>A delta map has no entry under the two signal names.\<close>

definition no_signal_keys :: "(string \<times> real) list \<Rightarrow> bool" where
  "no_signal_keys ds =
     (map_of ds ''backlog_pressure'' = None \<and> map_of ds ''service_risk'' = None)"


section \<open>Properties of the financial engine\<close>

lemma build_snapshot_fields:
  "pnl (build_snapshot co pnl_v cfo_v cfi_v dcf a i p ap_v oe fin) = pnl_v"
  "cash_open (build_snapshot co pnl_v cfo_v cfi_v dcf a i p ap_v oe fin) = co"
  "ar (balance (build_snapshot co pnl_v cfo_v cfi_v dcf a i p ap_v oe fin)) = a"
  "inventory (balance (build_snapshot co pnl_v cfo_v cfi_v dcf a i p ap_v oe fin)) = i"
  "ap (balance (build_snapshot co pnl_v cfo_v cfi_v dcf a i p ap_v oe fin)) = ap_v"
  "ppe (balance (build_snapshot co pnl_v cfo_v cfi_v dcf a i p ap_v oe fin)) = p"
  "other_equity (balance (build_snapshot co pnl_v cfo_v cfi_v dcf a i p ap_v oe fin)) = oe"
  "cfo (cashflow (build_snapshot co pnl_v cfo_v cfi_v dcf a i p ap_v oe fin)) = cfo_v"
  "cfi (cashflow (build_snapshot co pnl_v cfo_v cfi_v dcf a i p ap_v oe fin)) = cfi_v"
  "cff (cashflow (build_snapshot co pnl_v cfo_v cfi_v dcf a i p ap_v oe fin)) = fst fin"
  "debt (balance (build_snapshot co pnl_v cfo_v cfi_v dcf a i p ap_v oe fin)) = fst (snd fin)"
  "balance_ok (build_snapshot co pnl_v cfo_v cfi_v dcf a i p ap_v oe fin)"
  "cash_close (build_snapshot co pnl_v cfo_v cfi_v dcf a i p ap_v oe fin) =
     max 0 (co + cfo_v + cfi_v + fst fin + dcf)"
  "cash (balance (build_snapshot co pnl_v cfo_v cfi_v dcf a i p ap_v oe fin)) =
     max 0 (co + cfo_v + cfi_v + fst fin + dcf)"
  by (cases fin; simp add: build_snapshot_def Let_def)+

text \<open>The provisional close moves in lockstep with \<open>cff\<close>.\<close>

lemma financing_prov:
  "financing b pol d r p n = (cf, db, re, pr, ns) \<Longrightarrow> pr = p + cf"
  by (auto simp: financing_def Let_def split: if_splits)




lemma build_snapshot_recon:
  assumes "fin = financing b pol d r (co + cfo_v + cfi_v + 0 + dcf) n"
  shows "cash_recon_ok (build_snapshot co pnl_v cfo_v cfi_v dcf a i p ap_v oe fin)"
proof -
  obtain cf db re pr ns where f: "fin = (cf, db, re, pr, ns)"
    by (cases fin) auto
  with assms have "pr = co + cfo_v + cfi_v + 0 + dcf + cf"
    using financing_prov [of b pol d r _ n cf db re pr ns] by simp
  then show ?thesis
    by (simp add: build_snapshot_def f Let_def)
qed









text \<open>
  Claim C8. From the starting balance, the baseline drivers and the default parameters
  (a 30-day period), \<open>computeFinancials\<close> returns revenue 1,000,000, cogs 600,000, gross
  profit 400,000, AR 1,000,000, inventory 900,000, AP 600,000, and both checks true.
\<close>

theorem computeFinancials_baseline:
  "revenue (pnl (computeFinancials (baseline_input pol dcs))) = 1000000 \<and>
   cogs (pnl (computeFinancials (baseline_input pol dcs))) = 600000 \<and>
   gross_profit (pnl (computeFinancials (baseline_input pol dcs))) = 400000 \<and>
   ar (balance (computeFinancials (baseline_input pol dcs))) = 1000000 \<and>
   inventory (balance (computeFinancials (baseline_input pol dcs))) = 900000 \<and>
   ap (balance (computeFinancials (baseline_input pol dcs))) = 600000 \<and>
   balance_ok (computeFinancials (baseline_input pol dcs)) \<and>
   cash_recon_ok (computeFinancials (baseline_input pol dcs))"
proof -
  have "cash_recon_ok (computeFinancials (baseline_input pol dcs))"
    unfolding computeFinancials_def Let_def by (rule build_snapshot_recon) (rule refl)
  then show ?thesis
    by (simp add: computeFinancials_def Let_def build_snapshot_fields baseline_input_def
        STARTING_BALANCE_def BASELINE_DRIVERS_def FINANCE_PARAMS_DEFAULT_def)
qed


section \<open>Properties of the signal resolver\<close>










section \<open>Properties of the turn resolver\<close>

lemma resolveTurn_state_after:
  "morale (state_after (resolveTurn caps state decl eo)) =
     morale (next_state (applyContextMods state) (applied_deltas (resolveTurn caps state decl eo)) decl)"
  "credibility (state_after (resolveTurn caps state decl eo)) =
     credibility (next_state (applyContextMods state) (applied_deltas (resolveTurn caps state decl eo)) decl)"
  "service (state_after (resolveTurn caps state decl eo)) =
     service (next_state (applyContextMods state) (applied_deltas (resolveTurn caps state decl eo)) decl)"
  "backlog (state_after (resolveTurn caps state decl eo)) =
     backlog (next_state (applyContextMods state) (applied_deltas (resolveTurn caps state decl eo)) decl)"
  "share (state_after (resolveTurn caps state decl eo)) =
     share (next_state (applyContextMods state) (applied_deltas (resolveTurn caps state decl eo)) decl)"
  "cash_runway (state_after (resolveTurn caps state decl eo)) =
     cash_runway (next_state (applyContextMods state) (applied_deltas (resolveTurn caps state decl eo)) decl)"
  by (simp_all add: resolveTurn_def Let_def case_prod_beta)

lemma next_state_bounds:
  "0 \<le> morale (next_state m a d) \<and> morale (next_state m a d) \<le> 100 \<and>
   0 \<le> credibility (next_state m a d) \<and> credibility (next_state m a d) \<le> 100 \<and>
   0 \<le> service (next_state m a d) \<and> service (next_state m a d) \<le> 100 \<and>
   0 \<le> backlog (next_state m a d) \<and> 0 \<le> share (next_state m a d) \<and>
   0 \<le> cash_runway (next_state m a d)"
  by (simp add: next_state_def)

text \<open>
  Claim C7. For every input state, every text and every evaluator output, the state
  produced by \<open>resolveTurn\<close> has morale, credibility and service within [0, 100] and
  backlog, share and cash runway at or above 0. The input state need not be within its
  bounds for that.
\<close>

theorem resolveTurn_bounded_state:
  "0 \<le> morale (state_after (resolveTurn caps state decl eo)) \<and>
   morale (state_after (resolveTurn caps state decl eo)) \<le> 100 \<and>
   0 \<le> credibility (state_after (resolveTurn caps state decl eo)) \<and>
   credibility (state_after (resolveTurn caps state decl eo)) \<le> 100 \<and>
   0 \<le> service (state_after (resolveTurn caps state decl eo)) \<and>
   service (state_after (resolveTurn caps state decl eo)) \<le> 100 \<and>
   0 \<le> backlog (state_after (resolveTurn caps state decl eo)) \<and>
   0 \<le> share (state_after (resolveTurn caps state decl eo)) \<and>
   0 \<le> cash_runway (state_after (resolveTurn caps state decl eo))"
  unfolding resolveTurn_state_after by (rule next_state_bounds)

text \<open>No layer stores a delta under \<open>backlog_pressure\<close> or \<open>service_risk\<close>.\<close>

lemma no_signal_keys_update:
  "no_signal_keys ds \<Longrightarrow> key \<noteq> ''backlog_pressure'' \<Longrightarrow> key \<noteq> ''service_risk'' \<Longrightarrow>
     no_signal_keys (AList.update key v ds)"
  by (simp add: no_signal_keys_def update_conv')

lemma applyCEOSignals_keys: "no_signal_keys (applyCEOSignals sigs state caps)"
  by (simp add: applyCEOSignals_def no_signal_keys_def update_conv')

lemma event_step_keys:
  assumes "no_signal_keys ds"
  shows "no_signal_keys (event_step caps state e ds)"
proof -
  obtain key sg where e: "e = (key, sg)"
    by (cases e)
  show ?thesis
  proof (cases sg)
    case None
    with assms e show ?thesis
      by (simp add: event_step_def)
  next
    case (Some signal)
    define sk where
      "sk = (if key = ''service_risk'' then ''service''
             else if key = ''backlog_pressure'' then ''backlog'' else key)"
    have sk: "sk \<noteq> ''backlog_pressure''" "sk \<noteq> ''service_risk''"
      by (simp_all add: sk_def)
    have "\<exists>v. event_step caps state e ds = ds \<or> event_step caps state e ds = AList.update sk v ds"
      by (auto simp add: e Some event_step_def Let_def sk_def)
    with assms sk show ?thesis
      by (auto intro: no_signal_keys_update)
  qed
qed

lemma fold_event_step_keys:
  "no_signal_keys ds \<Longrightarrow> no_signal_keys (fold (event_step caps state) es ds)"
  by (induction es arbitrary: ds) (simp_all add: event_step_keys)

lemma applyEventImpact_keys: "no_signal_keys (applyEventImpact ic state caps)"
  unfolding applyEventImpact_def
  by (rule fold_event_step_keys) (simp add: no_signal_keys_def)

lemma applyNonsensePenalty_keys: "no_signal_keys (applyNonsensePenalty p state caps)"
  by (simp add: applyNonsensePenalty_def no_signal_keys_def Let_def)

lemma add_deltas_keys:
  "no_signal_keys extra \<Longrightarrow> no_signal_keys combined \<Longrightarrow>
     no_signal_keys (add_deltas extra combined)"
proof (induction extra arbitrary: combined)
  case Nil
  then show ?case
    by (simp add: add_deltas_def)
next
  case (Cons e extra)
  obtain key delta where e: "e = (key, delta)"
    by (cases e)
  from Cons.prems(1) have k: "key \<noteq> ''backlog_pressure''" "key \<noteq> ''service_risk''"
    and x: "no_signal_keys extra"
    by (auto simp add: e no_signal_keys_def split: if_splits)
  have "no_signal_keys (add_deltas extra (AList.update key (get_or0 combined key + delta) combined))"
    by (rule Cons.IH [OF x]) (rule no_signal_keys_update [OF Cons.prems(2) k])
  then show ?case
    by (simp add: add_deltas_def e)
qed

lemma applySignals_keys: "no_signal_keys (applySignals eo state caps)"
  unfolding applySignals_def Let_def
  by (intro add_deltas_keys applyNonsensePenalty_keys applyEventImpact_keys applyCEOSignals_keys)

lemma resolveTurn_deltas:
  "d_backlog (deltas (resolveTurn caps state decl eo)) =
     get_or0 (applySignals eo (applyContextMods state) caps) ''backlog_pressure''"
  "d_service (deltas (resolveTurn caps state decl eo)) =
     get_or0 (applySignals eo (applyContextMods state) caps) ''service_risk''"
  by (simp_all add: resolveTurn_def Let_def case_prod_beta)

lemma applied_strong_output:
  "d_backlog (applied_deltas (resolveTurn DEFAULT_CAPS baseState decl strong_output)) = 250"
  "d_service (applied_deltas (resolveTurn DEFAULT_CAPS baseState decl strong_output)) = - (3 / 5)"
  by (simp_all add: resolveTurn_def Let_def case_prod_beta clampDeltas_def applySignals_def
      applyCEOSignals_def applyEventImpact_def applyNonsensePenalty_def add_deltas_def
      strong_output_def neutral_output_def ceo_delta_def applyContextMods_def baseState_def
      clamp_step_def delta_cap_def set_applied_def DEFAULT_CAPS_def js_round_def cap_or1_def
      caps_get_def)

text \<open>
  Claim C9. In every turn record the raw deltas reported for backlog and service are 0,
  whatever the signals: the delta map holds them under \<open>backlog\<close> and \<open>service\<close>, and
  the record reads \<open>backlog_pressure\<close> and \<open>service_risk\<close>. The applied deltas of the
  two metrics can be other than 0: with the default caps and all signals at strength 5
  they are 250 and -0.6.
\<close>

theorem resolveTurn_raw_backlog_service_zero:
  "d_backlog (deltas (resolveTurn caps state decl eo)) = 0 \<and>
   d_service (deltas (resolveTurn caps state decl eo)) = 0 \<and>
   d_backlog (applied_deltas (resolveTurn DEFAULT_CAPS baseState spend_decl strong_output)) = 250 \<and>
   d_service (applied_deltas (resolveTurn DEFAULT_CAPS baseState spend_decl strong_output)) = - (3 / 5)"
  using applySignals_keys [of eo "applyContextMods state" caps]
  unfolding resolveTurn_deltas applied_strong_output
  by (simp add: get_or0_def no_signal_keys_def)

text \<open>What the turn does on the fixtures.\<close>

lemma detect_spend_decl: "detectCashSpending spend_decl eo = 1 / 10"
  unfolding detectCashSpending_def spend_decl_def by code_simp

lemma detect_invest_decl: "detectCashSpending invest_decl eo = 0"
  unfolding detectCashSpending_def invest_decl_def by code_simp

lemma turn_drivers_neutral:
  "turn_drivers baseState decl neutral_output = (BASELINE_DRIVERS, FINANCE_PARAMS_DEFAULT, [])"
  by (simp add: turn_drivers_def neutral_output_def baseState_def sgn_dir_def Let_def
      channel_up_def clamp_def BASELINE_DRIVERS_def DRIVER_BOUNDS_def js_round_def)

lemma prev_balance_baseState: "getPrevBalanceFromState baseState = STARTING_BALANCE"
  by (simp add: getPrevBalanceFromState_def baseState_def)

lemma finance_input_neutral:
  "turn_finance_input baseState decl neutral_output =
     baseline_input (Some \<lparr> dividend = False, repay_debt = False \<rparr>) None"
  unfolding turn_finance_input_def turn_drivers_neutral prev_balance_baseState
  by (simp add: baseline_input_def)

lemma baseline_cash:
  "cash (balance (computeFinancials
     (baseline_input (Some \<lparr> dividend = False, repay_debt = False \<rparr>) None))) = 250000"
  "cash (balance (computeFinancials
     ((baseline_input (Some \<lparr> dividend = False, repay_debt = False \<rparr>) None)
        \<lparr> direct_cash_spending := Some 100000 \<rparr>))) = 250000"
  "debt (balance (computeFinancials
     (baseline_input (Some \<lparr> dividend = False, repay_debt = False \<rparr>) None))) = 150000"
  "debt (balance (computeFinancials
     ((baseline_input (Some \<lparr> dividend = False, repay_debt = False \<rparr>) None)
        \<lparr> direct_cash_spending := Some 100000 \<rparr>))) = 250000"
  by (simp_all add: computeFinancials_def Let_def baseline_input_def build_snapshot_fields
      STARTING_BALANCE_def BASELINE_DRIVERS_def FINANCE_PARAMS_DEFAULT_def financing_def)

lemma resolveTurn_financials:
  "financials (resolveTurn caps state decl eo) =
     fst (apply_cash_spending (detectCashSpending decl eo) (getPrevBalanceFromState state)
            (computeFinancials (turn_finance_input state decl eo))
            (snd (snd (turn_drivers state decl eo))))"
  by (simp add: resolveTurn_def Let_def case_prod_beta)

lemma spend_decl_cash:
  "cash (balance (financials (resolveTurn caps baseState spend_decl neutral_output))) = 150000"
  "debt (balance (financials (resolveTurn caps baseState spend_decl neutral_output))) = 150000"
  unfolding resolveTurn_financials detect_spend_decl finance_input_neutral prev_balance_baseState
  by (simp_all add: apply_cash_spending_def direct_amount_def Let_def baseline_cash
      STARTING_BALANCE_def)

lemma turn_finance_input_no_spending:
  "direct_cash_spending (turn_finance_input state decl eo) = None"
  by (simp add: turn_finance_input_def case_prod_beta)

text \<open>
  Claim C2, as amended. When \<open>resolveTurn\<close> detects a direct cash-spending instruction,
  the Financial Engine is called without a \<open>direct_cash_spending\<close> member. The spend
  amount (for a detected value of at most 1, that fraction of the cash of the balance
  before the turn) is subtracted, with a floor of 0, from \<open>balance.cash\<close> of the
  snapshot the engine returned; the rest of the snapshot is as the engine returned it.
\<close>

theorem resolveTurn_direct_spending:
  assumes "0 < detectCashSpending decl eo"
  shows "direct_cash_spending (turn_finance_input state decl eo) = None \<and>
         financials (resolveTurn caps state decl eo) =
           (computeFinancials (turn_finance_input state decl eo))
             \<lparr> balance := (balance (computeFinancials (turn_finance_input state decl eo)))
                 \<lparr> cash := max 0 (cash (balance (computeFinancials (turn_finance_input state decl eo)))
                      - (if detectCashSpending decl eo \<le> 1
                         then cash (getPrevBalanceFromState state) * detectCashSpending decl eo
                         else detectCashSpending decl eo)) \<rparr> \<rparr>"
  using assms unfolding resolveTurn_financials
  by (simp add: turn_finance_input_no_spending apply_cash_spending_def direct_amount_def Let_def)

theorem resolveTurn_direct_spending_witness:
  "0 < detectCashSpending spend_decl neutral_output \<and>
   direct_cash_spending (turn_finance_input baseState spend_decl neutral_output) = None \<and>
   financials (resolveTurn DEFAULT_CAPS baseState spend_decl neutral_output) =
     (computeFinancials (turn_finance_input baseState spend_decl neutral_output))
       \<lparr> balance := (balance (computeFinancials (turn_finance_input baseState spend_decl neutral_output)))
           \<lparr> cash := max 0 (cash (balance (computeFinancials (turn_finance_input baseState spend_decl neutral_output)))
                - (if detectCashSpending spend_decl neutral_output \<le> 1
                   then cash (getPrevBalanceFromState baseState) * detectCashSpending spend_decl neutral_output
                   else detectCashSpending spend_decl neutral_output)) \<rparr> \<rparr>"
proof -
  have h: "0 < detectCashSpending spend_decl neutral_output"
    by (simp add: detect_spend_decl)
  from h resolveTurn_direct_spending [OF h] show ?thesis by blast
qed

text \<open>
  Claim C2, as stated, fails. On the test state with neutral signals and the text
  \<open>Spend 10% of our cash on bonuses\<close> the detected fraction is 0.1 and the amount
  100000. Passed to the engine as an outflow, it would raise the debt draw to 250000;
  the turn record has a debt of 150000 and a cash balance of 150000.
\<close>

theorem resolveTurn_direct_spending_counterexample:
  "0 < detectCashSpending spend_decl neutral_output \<and>
   financials (resolveTurn DEFAULT_CAPS baseState spend_decl neutral_output) \<noteq>
     computeFinancials
       ((turn_finance_input baseState spend_decl neutral_output)
          \<lparr> direct_cash_spending :=
              Some (direct_amount (detectCashSpending spend_decl neutral_output)
                      (getPrevBalanceFromState baseState)) \<rparr>)"
proof -
  have a: "direct_amount (detectCashSpending spend_decl neutral_output)
             (getPrevBalanceFromState baseState) = 100000"
    by (simp add: detect_spend_decl prev_balance_baseState direct_amount_def STARTING_BALANCE_def)
  have "debt (balance (financials (resolveTurn DEFAULT_CAPS baseState spend_decl neutral_output))) \<noteq>
        debt (balance (computeFinancials
          ((turn_finance_input baseState spend_decl neutral_output)
             \<lparr> direct_cash_spending :=
                 Some (direct_amount (detectCashSpending spend_decl neutral_output)
                         (getPrevBalanceFromState baseState)) \<rparr>)))"
    unfolding a finance_input_neutral by (simp add: spend_decl_cash baseline_cash)
  then show ?thesis
    by (auto simp add: detect_spend_decl)
qed

text \<open>
  Claim C5, as amended. When no direct cash spending is detected, the snapshot in the
  turn record is the snapshot \<open>computeFinancials\<close> returned. In every case it differs
  from it in \<open>balance.cash\<close> at most: the other members of the balance sheet, the
  opening cash, the P&L, the cash flows, \<open>cash_close\<close>, both checks and the notes are
  the same.
\<close>

theorem resolveTurn_snapshot_frame:
  "(detectCashSpending decl eo \<le> 0 \<longrightarrow>
      financials (resolveTurn caps state decl eo) = computeFinancials (turn_finance_input state decl eo)) \<and>
   (balance (financials (resolveTurn caps state decl eo)))
      \<lparr> cash := cash (balance (computeFinancials (turn_finance_input state decl eo))) \<rparr> =
     balance (computeFinancials (turn_finance_input state decl eo)) \<and>
   cash_open (financials (resolveTurn caps state decl eo)) =
     cash_open (computeFinancials (turn_finance_input state decl eo)) \<and>
   pnl (financials (resolveTurn caps state decl eo)) =
     pnl (computeFinancials (turn_finance_input state decl eo)) \<and>
   cashflow (financials (resolveTurn caps state decl eo)) =
     cashflow (computeFinancials (turn_finance_input state decl eo)) \<and>
   cash_close (financials (resolveTurn caps state decl eo)) =
     cash_close (computeFinancials (turn_finance_input state decl eo)) \<and>
   balance_ok (financials (resolveTurn caps state decl eo)) =
     balance_ok (computeFinancials (turn_finance_input state decl eo)) \<and>
   cash_recon_ok (financials (resolveTurn caps state decl eo)) =
     cash_recon_ok (computeFinancials (turn_finance_input state decl eo)) \<and>
   fin_notes (financials (resolveTurn caps state decl eo)) =
     fin_notes (computeFinancials (turn_finance_input state decl eo))"
  unfolding resolveTurn_financials
  by (simp add: apply_cash_spending_def Let_def)

theorem resolveTurn_snapshot_frame_witness:
  "detectCashSpending invest_decl neutral_output \<le> 0 \<and>
   financials (resolveTurn DEFAULT_CAPS baseState invest_decl neutral_output) =
     computeFinancials (turn_finance_input baseState invest_decl neutral_output)"
proof -
  have h: "detectCashSpending invest_decl neutral_output \<le> 0"
    by (simp add: detect_invest_decl)
  from h resolveTurn_snapshot_frame [of invest_decl neutral_output DEFAULT_CAPS baseState]
  show ?thesis by blast
qed

text \<open>
  Claim C5, as stated, fails: on the same input the snapshot in the turn record has a
  cash balance of 150000, and the one \<open>computeFinancials\<close> returned has 250000.
\<close>

theorem resolveTurn_snapshot_frame_counterexample:
  "financials (resolveTurn DEFAULT_CAPS baseState spend_decl neutral_output) \<noteq>
     computeFinancials (turn_finance_input baseState spend_decl neutral_output)"
proof -
  have "cash (balance (financials (resolveTurn DEFAULT_CAPS baseState spend_decl neutral_output))) \<noteq>
        cash (balance (computeFinancials (turn_finance_input baseState spend_decl neutral_output)))"
    unfolding finance_input_neutral by (simp add: spend_decl_cash baseline_cash)
  then show ?thesis by auto
qed

section \<open>Properties of the event generator\<close>












end
